theory Spec2Isabelle
  imports Main
begin

section \<open>Go library functions the client calls\<close>

text \<open>
  Go strings are byte sequences; they are modelled as \<open>string\<close> (a \<open>char list\<close>, one
  \<open>char\<close> per byte). The functions below follow the Go standard library for the
  arguments the client passes (separators and search patterns are never empty there).
\<close>

fun HasPrefix :: "string \<Rightarrow> string \<Rightarrow> bool" where
  "HasPrefix s [] = True"
| "HasPrefix [] (p # ps) = False"
| "HasPrefix (c # cs) (p # ps) = (c = p \<and> HasPrefix cs ps)"

fun Contains :: "string \<Rightarrow> string \<Rightarrow> bool" where
  "Contains [] sub = (sub = [])"
| "Contains (c # cs) sub = (HasPrefix (c # cs) sub \<or> Contains cs sub)"


text \<open>\<open>strings.Split\<close> for a non-empty separator; an empty one splits into single bytes.\<close>

function split_from :: "string \<Rightarrow> string \<Rightarrow> string \<Rightarrow> string list" where
  "split_from [] sep cur = [cur]"
| "split_from (c # cs) sep cur =
     (if sep \<noteq> [] \<and> HasPrefix (c # cs) sep
        then cur # split_from (drop (length sep) (c # cs)) sep []
      else split_from cs sep (cur @ [c]))"
  by pat_completeness auto
termination
  by (relation "measure (\<lambda>(s, sep, cur). length s)") auto

definition Split :: "string \<Rightarrow> string \<Rightarrow> string list" where
  "Split s sep = (if sep = [] then map (\<lambda>c. [c]) s else split_from s sep [])"

text \<open>\<open>fmt.Sprintf("%d", n)\<close>: the decimal digits of an \<open>int\<close>, with a leading minus sign.\<close>

definition digit_char :: "nat \<Rightarrow> char" where
  "digit_char n = ''0123456789'' ! (n mod 10)"

function nat_digits :: "nat \<Rightarrow> string" where
  "nat_digits n =
     (if n < 10 then [digit_char n] else nat_digits (n div 10) @ [digit_char (n mod 10)])"
  by pat_completeness auto
termination
  by (relation "measure (\<lambda>n. n)") auto

definition Itoa :: "int \<Rightarrow> string" where
  "Itoa i = (if i < 0 then CHR ''-'' # nat_digits (nat (- i)) else nat_digits (nat i))"

text \<open>
  \<open>strconv.Atoi\<close>: an optional sign, then at least one decimal digit and nothing else;
  a value outside the 64-bit \<open>int\<close> range is an error as well.
\<close>

definition digit_val :: "char \<Rightarrow> nat option" where
  "digit_val c =
     map_of [(CHR ''0'', 0), (CHR ''1'', 1), (CHR ''2'', 2), (CHR ''3'', 3), (CHR ''4'', 4),
             (CHR ''5'', 5), (CHR ''6'', 6), (CHR ''7'', 7), (CHR ''8'', 8), (CHR ''9'', 9)] c"

fun parse_digits :: "string \<Rightarrow> nat \<Rightarrow> nat option" where
  "parse_digits [] acc = Some acc"
| "parse_digits (c # cs) acc =
     (case digit_val c of None \<Rightarrow> None | Some d \<Rightarrow> parse_digits cs (acc * 10 + d))"

definition Atoi :: "string \<Rightarrow> int option" where
  "Atoi s =
     (case s of
        [] \<Rightarrow> None
      | c # cs \<Rightarrow>
          (let body = (if c = CHR ''-'' \<or> c = CHR ''+'' then cs else s) in
           if body = [] then None
           else case parse_digits body 0 of
                  None \<Rightarrow> None
                | Some n \<Rightarrow>
                    (let v = (if c = CHR ''-'' then - int n else int n) in
                     if - (2 ^ 63) \<le> v \<and> v \<le> 2 ^ 63 - 1 then Some v else None)))"

text \<open>
  \<open>url.QueryEscape\<close>: letters, digits and \<open>- _ . ~\<close> stay, a space becomes \<open>+\<close>, every
  other byte becomes \<open>%XX\<close> in upper-case hexadecimal.
\<close>

definition unreserved :: "char \<Rightarrow> bool" where
  "unreserved c =
     (c \<in> set ''abcdefghijklmnopqrstuvwxyzABCDEFGHIJKLMNOPQRSTUVWXYZ0123456789-_.~'')"

definition hex_char :: "nat \<Rightarrow> char" where
  "hex_char n = ''0123456789ABCDEF'' ! (n mod 16)"

definition escape_byte :: "char \<Rightarrow> string" where
  "escape_byte c =
     (if unreserved c then [c]
      else if c = CHR '' '' then ''+''
      else [CHR ''%'', hex_char ((of_char c :: nat) div 16), hex_char ((of_char c :: nat) mod 16)])"

definition QueryEscape :: "string \<Rightarrow> string" where
  "QueryEscape s = concat (map escape_byte s)"


section \<open>Domain model\<close>

subsection \<open>The authentication response (\<open>model/auth_response.go\<close>)\<close>

record ResourceLimit =
  Limit :: int
  Used :: int
  Reached :: bool

record SubscriptionLimits =
  Tunnels :: ResourceLimit
  Ports :: ResourceLimit
  Bandwidth :: ResourceLimit
  Requests :: ResourceLimit

record SubscriptionFeatures =
  CustomDomains :: bool
  Analytics :: bool
  PrioritySupport :: bool

record Subscription =
  SubName :: string
  Limits :: SubscriptionLimits
  Features :: SubscriptionFeatures

record AuthData =
  UserID :: string
  Fullname :: string
  Username :: string
  Email :: string
  Subscription :: Subscription

record AuthMeta =
  HeaderStatusCode :: int

record AuthResponse =
  Code :: int
  Status :: string
  RespMessage :: string
  Data :: AuthData
  Meta :: AuthMeta


section \<open>The auth validator (\<open>domain/service/auth_service.go\<close>)\<close>

text \<open>
  The validator talks to the network and to \<open>encoding/json\<close>. What those answer is the
  environment of a call: whether the validation URL parses, what \<open>client.Do\<close> returns for
  the request, what reading the body gives, and what \<open>json.Valid\<close> and
  \<open>json.Unmarshal\<close> say about the body.
\<close>

record http_request =
  req_method :: string
  req_url :: string
  req_body :: string
  req_headers :: "(string \<times> string) list"

record http_response =
  StatusCode :: int
  Body :: "string + string"  \<comment> \<open>\<open>io.ReadAll\<close>: \<open>Inl\<close> a read error, \<open>Inr\<close> the bytes\<close>

record http_env =
  url_parse_error :: "string \<Rightarrow> string option"
  client_Do :: "http_request \<Rightarrow> string + http_response"
  json_Valid :: "string \<Rightarrow> bool"
  json_Unmarshal :: "string \<Rightarrow> string + AuthResponse"

datatype auth_error =
    EmptyToken
  | CreateRequestFailed string
  | SendRequestFailed string
  | NonOKStatus int
  | ReadBodyFailed string
  | NotValidJSON string
  | ParseResponseFailed string

definition validation_request :: "string \<Rightarrow> string \<Rightarrow> http_request" where
  "validation_request validationURL token =
     \<lparr> req_method = ''POST'',
       req_url = validationURL,
       req_body = ''token='' @ QueryEscape token,
       req_headers = [(''Content-Type'', ''application/x-www-form-urlencoded''),
                      (''User-Agent'', ''HaxorportClient/1.0'')] \<rparr>"

definition json_preview :: "string \<Rightarrow> string" where
  "json_preview respBody =
     (if length respBody > 100 then take 100 respBody @ ''...'' else respBody)"

text \<open>
  \<open>ValidateTokenWithResponse\<close> returns the HTTP requests it issued, in order, and its
  result.
\<close>

definition ValidateTokenWithResponse ::
    "http_env \<Rightarrow> string \<Rightarrow> string \<Rightarrow> http_request list \<times> (auth_error + AuthResponse)" where
  "ValidateTokenWithResponse env validationURL token =
     (if token = [] then ([], Inl EmptyToken)
      else case url_parse_error env validationURL of
        Some e \<Rightarrow> ([], Inl (CreateRequestFailed e))
      | None \<Rightarrow>
          (let req = validation_request validationURL token in
           case client_Do env req of
             Inl e \<Rightarrow> ([req], Inl (SendRequestFailed e))
           | Inr resp \<Rightarrow>
               if StatusCode resp \<noteq> 200 then ([req], Inl (NonOKStatus (StatusCode resp)))
               else case Body resp of
                 Inl e \<Rightarrow> ([req], Inl (ReadBodyFailed e))
               | Inr respBody \<Rightarrow>
                   if \<not> json_Valid env respBody
                     then ([req], Inl (NotValidJSON (json_preview respBody)))
                   else case json_Unmarshal env respBody of
                     Inl e \<Rightarrow> ([req], Inl (ParseResponseFailed e))
                   | Inr authResponse \<Rightarrow> ([req], Inr authResponse)))"

definition ValidateToken ::
    "http_env \<Rightarrow> string \<Rightarrow> string \<Rightarrow> http_request list \<times> (auth_error + bool)" where
  "ValidateToken env validationURL token =
     (case ValidateTokenWithResponse env validationURL token of
        (reqs, Inl err) \<Rightarrow> (reqs, Inl err)
      | (reqs, Inr response) \<Rightarrow>
          (reqs, Inr (Status response = ''success'' \<and> Code response = 200)))"


section \<open>Configuration and messages (\<open>domain/model\<close>)\<close>

datatype ConnectionMode = ConnectionModeWebSocket | ConnectionModeDirectTCP | ConnectionModeOther string

datatype TunnelType = TunnelTypeHTTP | TunnelTypeTCP | TunnelTypeUnset

datatype AuthType = AuthTypeBasic | AuthTypeHeader

record TunnelAuth =
  AuthKind :: AuthType
  AuthUsername :: string
  AuthPassword :: string
  HeaderName :: string
  HeaderValue :: string

record TunnelConfig =
  TunnelName :: string
  TunnelKind :: TunnelType
  LocalPort :: int
  LocalAddr :: string
  ConfigSubdomain :: string
  ConfigRemotePort :: int
  TunnelAuthInfo :: "TunnelAuth option"

record Tunnel =
  ID :: string
  TConfig :: TunnelConfig
  URL :: string
  RemotePort :: int
  Active :: bool



definition SetTCPInfo :: "int \<Rightarrow> Tunnel \<Rightarrow> Tunnel" where
  "SetTCPInfo remotePort t = t\<lparr> RemotePort := remotePort, Active := True \<rparr>"

record Config =
  ServerAddress :: string
  ControlPort :: int
  DataPort :: int
  ConnMode :: ConnectionMode
  AuthEnabled :: bool
  AuthToken :: string
  AuthValidationURL :: string
  TLSEnabled :: bool
  TLSCert :: string
  TLSKey :: string
  LogLevel :: string
  LogFile :: string
  BaseDomain :: string
  ConfigTunnels :: "TunnelConfig list"

datatype MessageType =
    MessageTypeAuth | MessageTypeRegister | MessageTypeUnregister | MessageTypeData
  | MessageTypePing | MessageTypePong | MessageTypeError
  | MessageTypeHTTPRequest | MessageTypeHTTPResponse

text \<open>
  The payload variants. A message keeps its payload structured; the JSON text is what
  \<open>json.Marshal\<close> makes of it, and whether that fails is part of the environment.
\<close>

datatype Payload =
    AuthPayload string
  | RegisterPayload TunnelConfig
  | UnregisterPayload string
  | DataPayload string string string  \<comment> \<open>tunnel id, connection id, data\<close>

record Message =
  MsgType :: MessageType
  Version :: string
  Timestamp :: int
  MsgPayload :: "Payload option"

text \<open>
  \<open>NewMessage\<close>: \<open>marshal_error\<close> is what \<open>json.Marshal\<close> answers for the payload,
  \<open>now\<close> is the clock in milliseconds.
\<close>

definition NewMessage ::
    "(Payload \<Rightarrow> string option) \<Rightarrow> int \<Rightarrow> MessageType \<Rightarrow> Payload option \<Rightarrow> string + Message" where
  "NewMessage marshal_error now msgType payload =
     (case (case payload of None \<Rightarrow> None | Some p \<Rightarrow> marshal_error p) of
        Some e \<Rightarrow> Inl e
      | None \<Rightarrow>
          Inr \<lparr> MsgType = msgType, Version = ''1.0.0'', Timestamp = now,
                MsgPayload = payload \<rparr>)"


section \<open>The session transport (\<open>infrastructure/transport/client.go\<close>)\<close>

text \<open>
  What a call does to the outside world is returned as a list of events, in order.
  Durations are in milliseconds; a deadline is the time from now, \<open>None\<close> clears it.
  A \<open>Print\<close> event stands for one block of output lines and carries its headline;
  log lines are not events.
\<close>

datatype event =
    HttpPost http_request
  | WsDial string
  | WsWrite nat string bool  \<comment> \<open>socket, frame, whether the write succeeded\<close>
  | WsClose nat
  | SpawnReadPump
  | Sleep nat
  | ConnSetWriteDeadline nat "nat option"
  | ConnWrite nat string
  | ConnClose nat
  | DialLocal string
  | SetTCPOptions nat
  | SpawnHandleConnection string string nat
  | Listen int
  | ListenerClose nat
  | TcpDial string
  | TcpWrite nat string
  | TcpRead nat
  | TcpClose nat
  | PortChangeCallback int
  | SpawnAcceptLoop nat
  | SpawnControlLoop
  | Print string
  | RunWithReconnectCall
  | CreateTCPTunnelCall TunnelConfig

text \<open>
  \<open>mutex_held\<close> says that the goroutine making the call already holds \<open>c.mutex\<close>.
  \<open>sync.Mutex\<close> is not reentrant: locking it again from the same goroutine waits for
  ever. A call that never returns has the result \<open>None\<close>.
\<close>

record Client =
  serverAddr :: string
  controlPort :: int
  dataPort :: int
  authEnabled :: bool
  authToken :: string
  tlsEnabled :: bool
  tlsCert :: string
  tlsKey :: string
  baseDomain :: string
  conn :: "nat option"
  isConnected :: bool
  reconnecting :: bool
  mutex_held :: bool
  handlers :: "MessageType set"
  subdomain :: string
  config :: Config
  userData :: "AuthData option"


datatype client_error =
    FailedToValidateToken auth_error
  | AuthenticationFailed
  | FailedToLoadTLS string
  | InvalidURL string
  | FailedToConnect string
  | NotConnected
  | MarshalFailed string
  | SendFailed string
  | CreateMessageFailed string

definition Close :: "Client \<Rightarrow> event list \<times> unit option \<times> Client" where
  "Close c =
     (if mutex_held c then ([], None, c)
      else if \<not> isConnected c then ([], Some (), c)
      else case conn c of
        None \<Rightarrow> ([], Some (), c\<lparr> isConnected := False \<rparr>)
      | Some h \<Rightarrow> ([WsClose h], Some (), c\<lparr> conn := None, isConnected := False \<rparr>))"

definition IsConnected :: "Client \<Rightarrow> bool option" where
  "IsConnected c = (if mutex_held c then None else Some (isConnected c))"

definition RegisterHandler :: "MessageType \<Rightarrow> Client \<Rightarrow> Client option" where
  "RegisterHandler msgType c =
     (if mutex_held c then None else Some (c\<lparr> handlers := insert msgType (handlers c) \<rparr>))"

record connect_env =
  auth_env :: http_env
  load_cert_error :: "string option"
  ws_url_parse_error :: "string option"
  ws_dial :: "string \<Rightarrow> string + nat"
  connect_now :: int
  auth_payload_marshal_error :: "Payload \<Rightarrow> string option"
  auth_message_marshal :: "Message \<Rightarrow> string + string"
  auth_write_error :: "string option"

definition default_validation_url :: "Config \<Rightarrow> string" where
  "default_validation_url cfg =
     (if AuthValidationURL cfg \<noteq> [] then AuthValidationURL cfg
      else if TLSEnabled cfg then ''https://'' @ ServerAddress cfg @ ''/AuthToken/validate''
      else ''http://'' @ ServerAddress cfg @ ''/AuthToken/validate'')"

definition control_url :: "Client \<Rightarrow> string" where
  "control_url c =
     (if tlsEnabled c then ''wss'' else ''ws'') @ ''://'' @ serverAddr c @ '':''
       @ Itoa (controlPort c) @ ''/control''"

text \<open>
  The second half of \<open>Connect\<close>, from the TLS set-up on; it runs with the mutex held.
  Its three failure paths after the dial call \<open>c.Close()\<close>, which locks the mutex again.
\<close>

definition Connect_dial ::
    "connect_env \<Rightarrow> event list \<Rightarrow> Client \<Rightarrow> event list \<times> (client_error + unit) option \<times> Client" where
  "Connect_dial env evs c =
     (case (if tlsEnabled c \<and> tlsCert c \<noteq> [] \<and> tlsKey c \<noteq> [] then load_cert_error env
            else None) of
        Some e \<Rightarrow> (evs, Some (Inl (FailedToLoadTLS e)), c\<lparr> mutex_held := False \<rparr>)
      | None \<Rightarrow>
         (case ws_url_parse_error env of
            Some e \<Rightarrow> (evs, Some (Inl (InvalidURL e)), c\<lparr> mutex_held := False \<rparr>)
          | None \<Rightarrow>
             (case ws_dial env (control_url c) of
                Inl e \<Rightarrow>
                  (evs @ [WsDial (control_url c)], Some (Inl (FailedToConnect e)),
                   c\<lparr> mutex_held := False \<rparr>)
              | Inr h \<Rightarrow>
                 (let c1 = c\<lparr> conn := Some h, isConnected := True \<rparr>;
                      evs1 = evs @ [WsDial (control_url c)] in
                  case NewMessage (auth_payload_marshal_error env) (connect_now env)
                         MessageTypeAuth (Some (AuthPayload (authToken c1))) of
                    Inl e \<Rightarrow>
                      (case Close c1 of
                         (evs2, None, c2) \<Rightarrow> (evs1 @ evs2, None, c2)
                       | (evs2, Some u, c2) \<Rightarrow>
                           (evs1 @ evs2, Some (Inl (CreateMessageFailed e)),
                            c2\<lparr> mutex_held := False \<rparr>))
                  | Inr authMessage \<Rightarrow>
                     (case auth_message_marshal env authMessage of
                        Inl e \<Rightarrow>
                          (case Close c1 of
                             (evs2, None, c2) \<Rightarrow> (evs1 @ evs2, None, c2)
                           | (evs2, Some u, c2) \<Rightarrow>
                               (evs1 @ evs2, Some (Inl (MarshalFailed e)),
                                c2\<lparr> mutex_held := False \<rparr>))
                      | Inr data \<Rightarrow>
                         (if authEnabled c1 then
                            (case auth_write_error env of
                               Some e \<Rightarrow>
                                 (case Close c1 of
                                    (evs2, None, c2) \<Rightarrow>
                                      (evs1 @ [WsWrite h data False] @ evs2, None, c2)
                                  | (evs2, Some u, c2) \<Rightarrow>
                                      (evs1 @ [WsWrite h data False] @ evs2,
                                       Some (Inl (SendFailed e)), c2\<lparr> mutex_held := False \<rparr>))
                             | None \<Rightarrow>
                                 (evs1 @ [WsWrite h data True, SpawnReadPump], Some (Inr ()),
                                  c1\<lparr> mutex_held := False \<rparr>))
                          else (evs1 @ [SpawnReadPump], Some (Inr ()),
                                c1\<lparr> mutex_held := False \<rparr>)))))))"

definition Connect ::
    "connect_env \<Rightarrow> Client \<Rightarrow> event list \<times> (client_error + unit) option \<times> Client" where
  "Connect env c0 =
     (if mutex_held c0 then ([], None, c0)
      else
        (let c = c0\<lparr> mutex_held := True \<rparr> in
         if isConnected c then ([], Some (Inr ()), c\<lparr> mutex_held := False \<rparr>)
         else if AuthEnabled (config c) \<and> AuthToken (config c) \<noteq> [] then
           (case ValidateTokenWithResponse (auth_env env) (default_validation_url (config c))
                   (AuthToken (config c)) of
              (reqs, Inl err) \<Rightarrow>
                (map HttpPost reqs, Some (Inl (FailedToValidateToken err)),
                 c\<lparr> mutex_held := False \<rparr>)
            | (reqs, Inr response) \<Rightarrow>
                if Status response \<noteq> ''success'' \<or> Code response \<noteq> 200
                  then (map HttpPost reqs, Some (Inl AuthenticationFailed),
                        c\<lparr> mutex_held := False \<rparr>)
                else Connect_dial env (map HttpPost reqs) (c\<lparr> userData := Some (Data response) \<rparr>))
         else Connect_dial env [] c))"



definition GetUserData :: "Client \<Rightarrow> AuthData option" where
  "GetUserData c = userData c"





section \<open>The tunnel registry, WebSocket mode (\<open>TunnelRepository\<close>)\<close>












definition JoinHostPort :: "string \<Rightarrow> string \<Rightarrow> string" where
  "JoinHostPort host port =
     (if CHR '':'' \<in> set host \<or> CHR ''%'' \<in> set host then ''['' @ host @ '']:'' @ port
      else host @ '':'' @ port)"







subsection \<open>The per-connection forwarder (\<open>handleConnection\<close>)\<close>

text \<open>
  The forwarder reads the local socket and hands each chunk to the session transport. It
  sends the first chunk itself, before it reads on; every later chunk is given to a new
  goroutine (\<open>go func(data []byte) {...}\<close>) that calls \<open>sendDataWithRetry\<close>. Goroutines
  run in any order, and each write to the WebSocket happens under the client's mutex, so
  a run is a sequence of steps, each one a step of the forwarder or the send of one of
  the goroutines started and not yet run.

  \<open>fw_reads\<close> is what the successive \<open>conn.Read\<close> calls return, \<open>fw_pending\<close> the payloads
  of the sender goroutines that have not run yet, \<open>fw_sent\<close> the \<open>data\<close> payloads handed
  to the session transport so far, in the order of the writes. The keep-alive ticker,
  which only adds empty payloads on SSH connections, is left out.
\<close>

datatype read_result = ReadData string | ReadTimeout | ReadEOF | ReadError string

datatype phase = InitialRead | Forwarding | Returned

record forwarder =
  fw_phase :: phase
  fw_reads :: "read_result list"
  fw_pending :: "string list"
  fw_sent :: "string list"
  fw_errCh :: bool

definition forwarder_start :: "read_result list \<Rightarrow> forwarder" where
  "forwarder_start reads =
     \<lparr> fw_phase = InitialRead, fw_reads = reads, fw_pending = [], fw_sent = [],
       fw_errCh = False \<rparr>"

inductive forwarder_step :: "forwarder \<Rightarrow> forwarder \<Rightarrow> bool" where
  initial_sent:
    \<comment> \<open>the first read returns data and the inline \<open>SendData\<close> loop succeeds\<close>
    "fw_phase s = InitialRead \<Longrightarrow> fw_reads s = ReadData d # rest \<Longrightarrow> d \<noteq> [] \<Longrightarrow>
     forwarder_step s (s\<lparr> fw_phase := Forwarding, fw_reads := rest, fw_sent := fw_sent s @ [d] \<rparr>)"
| initial_send_failed:
    \<comment> \<open>all five attempts to send the first chunk fail: the forwarder returns\<close>
    "fw_phase s = InitialRead \<Longrightarrow> fw_reads s = ReadData d # rest \<Longrightarrow> d \<noteq> [] \<Longrightarrow>
     forwarder_step s (s\<lparr> fw_phase := Returned, fw_reads := rest \<rparr>)"
| initial_empty:
    "fw_phase s = InitialRead \<Longrightarrow> fw_reads s = ReadData [] # rest \<Longrightarrow>
     forwarder_step s (s\<lparr> fw_phase := Forwarding, fw_reads := rest \<rparr>)"
| initial_read_failed:
    \<comment> \<open>any error of the first read, a timeout included, ends the forwarder\<close>
    "fw_phase s = InitialRead \<Longrightarrow> fw_reads s = x # rest \<Longrightarrow> (\<forall>d. x \<noteq> ReadData d) \<Longrightarrow>
     forwarder_step s (s\<lparr> fw_phase := Returned, fw_reads := rest \<rparr>)"
| read_chunk:
    \<comment> \<open>\<open>n > 0\<close>: a copy of the chunk goes to a new sender goroutine, the next read starts\<close>
    "fw_phase s = Forwarding \<Longrightarrow> fw_reads s = ReadData d # rest \<Longrightarrow> d \<noteq> [] \<Longrightarrow>
     forwarder_step s (s\<lparr> fw_reads := rest, fw_pending := fw_pending s @ [d] \<rparr>)"
| read_nothing:
    "fw_phase s = Forwarding \<Longrightarrow> fw_reads s = ReadData [] # rest \<Longrightarrow>
     forwarder_step s (s\<lparr> fw_reads := rest \<rparr>)"
| read_timeout:
    "fw_phase s = Forwarding \<Longrightarrow> fw_reads s = ReadTimeout # rest \<Longrightarrow>
     forwarder_step s (s\<lparr> fw_reads := rest \<rparr>)"
| read_eof:
    "fw_phase s = Forwarding \<Longrightarrow> fw_reads s = ReadEOF # rest \<Longrightarrow>
     forwarder_step s (s\<lparr> fw_phase := Returned, fw_reads := rest \<rparr>)"
| read_error:
    "fw_phase s = Forwarding \<Longrightarrow> fw_reads s = ReadError e # rest \<Longrightarrow>
     forwarder_step s (s\<lparr> fw_phase := Returned, fw_reads := rest \<rparr>)"
| sender_sends:
    \<comment> \<open>one of the sender goroutines runs: its \<open>sendDataWithRetry\<close> writes the payload\<close>
    "fw_pending s = before @ d # after \<Longrightarrow>
     forwarder_step s (s\<lparr> fw_pending := before @ after, fw_sent := fw_sent s @ [d] \<rparr>)"
| sender_fails:
    \<comment> \<open>its five attempts all fail: the error goes to \<open>errCh\<close>\<close>
    "fw_pending s = before @ d # after \<Longrightarrow>
     forwarder_step s (s\<lparr> fw_pending := before @ after, fw_errCh := True \<rparr>)"
| error_received:
    "fw_phase s = Forwarding \<Longrightarrow> fw_errCh s \<Longrightarrow>
     forwarder_step s (s\<lparr> fw_phase := Returned, fw_errCh := False \<rparr>)"


section \<open>The HTTP request proxy: URL rewriting (\<open>transport/client_http.go\<close>)\<close>











section \<open>The Direct-TCP tunnel (\<open>transport/direct_tunnel.go\<close>)\<close>

text \<open>
  \<open>dt_mutex_held\<close>: the goroutine making the call holds \<open>t.mutex\<close>. A call that does not
  return has the result \<open>None\<close>. \<open>dt_portChangeCallback\<close> says whether a callback is
  registered; calling it is the event \<open>PortChangeCallback\<close>.
\<close>

record DirectTunnel =
  dt_localAddr :: string
  dt_serverAddr :: string
  dt_targetAddr :: string
  dt_localPort :: int
  dt_remotePort :: int
  dt_controlPort :: int
  dt_listener :: "nat option"
  dt_connection :: "nat option"
  dt_stopped :: bool
  dt_mutex_held :: bool
  dt_portChangeCallback :: bool
  dt_authEnabled :: bool
  dt_authToken :: string

definition NewDirectTunnel ::
    "string \<Rightarrow> string \<Rightarrow> string \<Rightarrow> int \<Rightarrow> int \<Rightarrow> int \<Rightarrow> bool \<Rightarrow> string \<Rightarrow> DirectTunnel" where
  "NewDirectTunnel localAddr' serverAddr' targetAddr' localPort' remotePort' controlPort'
       authEnabled' authToken' =
     \<lparr> dt_localAddr = localAddr', dt_serverAddr = serverAddr', dt_targetAddr = targetAddr',
       dt_localPort = localPort', dt_remotePort = remotePort', dt_controlPort = controlPort',
       dt_listener = None, dt_connection = None, dt_stopped = False, dt_mutex_held = False,
       dt_portChangeCallback = False, dt_authEnabled = authEnabled',
       dt_authToken = authToken' \<rparr>"

definition dt_Lock :: "DirectTunnel \<Rightarrow> DirectTunnel option" where
  "dt_Lock t = (if dt_mutex_held t then None else Some (t\<lparr> dt_mutex_held := True \<rparr>))"

definition dt_Unlock :: "DirectTunnel \<Rightarrow> DirectTunnel" where
  "dt_Unlock t = t\<lparr> dt_mutex_held := False \<rparr>"

definition SetPortChangeCallback :: "DirectTunnel \<Rightarrow> DirectTunnel option" where
  "SetPortChangeCallback t =
     (case dt_Lock t of
        None \<Rightarrow> None
      | Some t1 \<Rightarrow> Some (dt_Unlock (t1\<lparr> dt_portChangeCallback := True \<rparr>)))"

datatype dt_error =
    AlreadyRunning
  | ListenFailed int string
  | ConnectToServerFailed string
  | SendToServerFailed string
  | ReadResponseFailed string
  | UnexpectedResponse string

record start_env =
  listen_result :: "string + nat"
  dial_result :: "string + nat"
  start_write_error :: "string option"
  start_read :: "string + string"
  rand_intn :: nat  \<comment> \<open>\<open>rand.Intn(20000)\<close> returns \<open>rand_intn mod 20000\<close>\<close>

definition registration_line :: "DirectTunnel \<Rightarrow> string \<Rightarrow> string" where
  "registration_line t trailer =
     (if dt_authEnabled t \<and> dt_authToken t \<noteq> []
        then ''AUTH_TOKEN='' @ dt_authToken t @ '':'' @ dt_targetAddr t @ '':''
               @ Itoa (dt_remotePort t) @ '':'' @ trailer
      else dt_targetAddr t @ '':'' @ Itoa (dt_remotePort t) @ '':'' @ trailer)"

definition read_buffer_size :: "DirectTunnel \<Rightarrow> nat" where
  "read_buffer_size t = (if Contains (dt_targetAddr t) '':22'' then 65536 else 4096)"

text \<open>
  The port adoption block, the same in \<open>Start\<close> and in the control loop: lock the mutex,
  store the server's port, call the callback if there is one, unlock.
\<close>

definition adopt_port :: "int \<Rightarrow> DirectTunnel \<Rightarrow> (event list \<times> DirectTunnel) option" where
  "adopt_port actualPort t =
     (case dt_Lock t of
        None \<Rightarrow> None
      | Some t1 \<Rightarrow>
          Some (if dt_portChangeCallback t1 then [PortChangeCallback actualPort] else [],
                dt_Unlock (t1\<lparr> dt_remotePort := actualPort \<rparr>)))"

definition Start_finish ::
    "nat \<Rightarrow> event list \<Rightarrow> DirectTunnel \<Rightarrow> event list \<times> (dt_error + unit) option \<times> DirectTunnel" where
  "Start_finish l evs t =
     (evs @ [SpawnAcceptLoop l, SpawnControlLoop], Some (Inr ()),
      dt_Unlock (t\<lparr> dt_listener := Some l \<rparr>))"

text \<open>
  \<open>Start\<close> after a response without \<open>ERROR\<close>. It runs with the mutex held (\<open>Start\<close> locked
  it and unlocks it when it returns). Unlocking a mutex that is not locked aborts the
  program, which is the \<open>None\<close> after a port adoption that went through.
\<close>

definition Start_connected ::
    "nat \<Rightarrow> nat \<Rightarrow> event list \<Rightarrow> string \<Rightarrow> DirectTunnel \<Rightarrow>
       event list \<times> (dt_error + unit) option \<times> DirectTunnel" where
  "Start_connected l sc evs response t =
     (if HasPrefix response ''CONNECTED:'' then
        (let parts = Split response '':'' in
         if length parts \<ge> 2 then
           (case Atoi (parts ! 1) of
              Some actualPort \<Rightarrow>
                if actualPort \<noteq> dt_remotePort t then
                  (case adopt_port actualPort t of
                     None \<Rightarrow> (evs, None, t)
                   | Some (evs2, t') \<Rightarrow>
                       (evs @ evs2 @ [SpawnAcceptLoop l, SpawnControlLoop], None,
                        t'\<lparr> dt_listener := Some l \<rparr>))
                else Start_finish l evs t
            | None \<Rightarrow> Start_finish l evs t)
         else Start_finish l evs t)
      else if \<not> Contains response ''CONNECTED'' then
        (evs @ [TcpClose sc], Some (Inl (UnexpectedResponse response)), dt_Unlock t)
      else Start_finish l evs t)"

function Start ::
    "start_env \<Rightarrow> DirectTunnel \<Rightarrow> event list \<times> (dt_error + unit) option \<times> DirectTunnel" where
  "Start env t0 =
     (case dt_Lock t0 of
        None \<Rightarrow> ([], None, t0)
      | Some t1 \<Rightarrow>
         if dt_listener t1 \<noteq> None \<or> dt_connection t1 \<noteq> None
           then ([], Some (Inl AlreadyRunning), dt_Unlock t1)
         else
          (let t2 = t1\<lparr> dt_stopped := False \<rparr>;
               serverAddr' = JoinHostPort (dt_serverAddr t2) (Itoa (dt_controlPort t2)) in
           case listen_result env of
             Inl e \<Rightarrow>
               ([Listen (dt_localPort t2)], Some (Inl (ListenFailed (dt_localPort t2) e)),
                dt_Unlock t2)
           | Inr l \<Rightarrow>
              (case dial_result env of
                 Inl e \<Rightarrow>
                   ([Listen (dt_localPort t2), TcpDial serverAddr', ListenerClose l],
                    Some (Inl (ConnectToServerFailed e)), dt_Unlock t2)
               | Inr sc \<Rightarrow>
                  (let t3 = t2\<lparr> dt_connection := Some sc \<rparr>;
                       evs = [Listen (dt_localPort t2), TcpDial serverAddr',
                              TcpWrite sc (registration_line t3 ''DIRECT_TCP_FORWARD'')] in
                   case start_write_error env of
                     Some e \<Rightarrow> (evs, Some (Inl (SendToServerFailed e)), dt_Unlock t3)
                   | None \<Rightarrow>
                      (case start_read env of
                         Inl e \<Rightarrow>
                           (evs @ [TcpRead sc], Some (Inl (ReadResponseFailed e)), dt_Unlock t3)
                       | Inr bytes \<Rightarrow>
                          (let response = take (read_buffer_size t3) bytes in
                           if Contains response ''ERROR'' then
                             (case Start env
                                     (t3\<lparr> dt_remotePort := 10000 + int (rand_intn env mod 20000) \<rparr>) of
                                (evs', None, t') \<Rightarrow>
                                  (evs @ [TcpRead sc, TcpClose sc, Sleep 500] @ evs', None, t')
                              | (evs', Some res, t') \<Rightarrow>
                                  (evs @ [TcpRead sc, TcpClose sc, Sleep 500] @ evs', Some res,
                                   dt_Unlock t'))
                           else Start_connected l sc (evs @ [TcpRead sc]) response t3))))))"
  by pat_completeness auto
termination
  by (relation "measure (\<lambda>(env, t). if dt_mutex_held t then 0 else 1)")
     (auto simp: dt_Lock_def split: if_splits)

declare Start.simps [simp del]

text \<open>
  The control loop's handling of the handshake response, on a goroutine of its own: the
  result says whether the control connection is kept.
\<close>

definition control_handshake_response ::
    "string \<Rightarrow> DirectTunnel \<Rightarrow> (event list \<times> bool \<times> DirectTunnel) option" where
  "control_handshake_response response t =
     (if \<not> Contains response ''CONNECTED'' then Some ([Sleep 5000], False, t)
      else if HasPrefix response ''CONNECTED:'' then
        (let parts = Split response '':'' in
         if length parts \<ge> 2 then
           (case Atoi (parts ! 1) of
              Some actualPort \<Rightarrow>
                if actualPort \<noteq> dt_remotePort t then
                  (case adopt_port actualPort t of
                     None \<Rightarrow> None
                   | Some (evs, t') \<Rightarrow> Some (evs, True, t'))
                else Some ([], True, t)
            | None \<Rightarrow> Some ([], True, t))
         else Some ([], True, t))
      else Some ([], True, t))"


section \<open>The \<open>tcp\<close> command (\<open>tcpCmd\<close>)\<close>

text \<open>
  The command reads its flags and the process-wide container, prints, and leaves the
  process with \<open>os.Exit\<close>. Its run is modelled up to the point where the tunnel has been
  created and the command waits for a signal. \<open>create_tcp_tunnel\<close> is what
  \<open>TunnelService.CreateTCPTunnel\<close> does and returns for a configuration.
\<close>

record tcp_flags =
  tcpLocalPort :: int
  tcpRemotePort :: int
  tcpLocalAddr :: string

record Container =
  ContainerConfig :: Config
  ContainerClient :: "Client option"

record tcp_env =
  tcp_auth_env :: http_env
  tcp_connect_env :: connect_env
  split_host_port :: "string \<Rightarrow> string + (string \<times> string)"
  create_tcp_tunnel :: "TunnelConfig \<Rightarrow> event list \<times> (string + Tunnel)"

datatype tcp_outcome = Exited int | WaitingForSignal Tunnel

definition tcp_validation_url :: "Config \<Rightarrow> string" where
  "tcp_validation_url cfg =
     (if AuthValidationURL cfg \<noteq> [] then AuthValidationURL cfg
      else ''https://'' @ ServerAddress cfg @ ''/AuthToken/validate'')"

definition tunnel_limit_reached :: "AuthData \<Rightarrow> bool" where
  "tunnel_limit_reached u =
     (Reached (Tunnels (Limits (Subscription u)))
      \<or> Used (Tunnels (Limits (Subscription u))) \<ge> Limit (Tunnels (Limits (Subscription u))))"

text \<open>
  Where the token is checked and the user data obtained: through the session client in
  WebSocket mode, through a validator of its own otherwise. The result is the events,
  then either the exit status or the user data (\<open>None\<close> for a nil pointer), and the
  container.
\<close>

definition tcp_user_data ::
    "tcp_env \<Rightarrow> Container \<Rightarrow> event list \<times> (int + AuthData option) option \<times> Container" where
  "tcp_user_data env ct =
     (if ConnMode (ContainerConfig ct) = ConnectionModeWebSocket then
        (case ContainerClient ct of
           None \<Rightarrow>
             ([Print ''Error: Client not available for WebSocket connection mode''],
              Some (Inl 1), ct)
         | Some cl \<Rightarrow>
            (case IsConnected cl of
               None \<Rightarrow> ([], None, ct)
             | Some True \<Rightarrow> ([], Some (Inr (GetUserData cl)), ct)
             | Some False \<Rightarrow>
                (case Connect (tcp_connect_env env) cl of
                   (evs, None, cl') \<Rightarrow> (evs, None, ct\<lparr> ContainerClient := Some cl' \<rparr>)
                 | (evs, Some (Inl err), cl') \<Rightarrow>
                     (evs @ [Print ''Error: Failed to connect to server''], Some (Inl 1),
                      ct\<lparr> ContainerClient := Some cl' \<rparr>)
                 | (evs, Some (Inr u), cl') \<Rightarrow>
                     (evs, Some (Inr (GetUserData cl')),
                      ct\<lparr> ContainerClient := Some cl' \<rparr>))))
      else
        (case ValidateTokenWithResponse (tcp_auth_env env)
                (tcp_validation_url (ContainerConfig ct)) (AuthToken (ContainerConfig ct)) of
           (reqs, Inl err) \<Rightarrow>
             (map HttpPost reqs @ [Print ''Error: Failed to validate token''], Some (Inl 1), ct)
         | (reqs, Inr response) \<Rightarrow>
             if Status response \<noteq> ''success'' \<or> Code response \<noteq> 200
               then (map HttpPost reqs @ [Print (''Error: Invalid token: '' @ RespMessage response)],
                     Some (Inl 1), ct)
             else (map HttpPost reqs, Some (Inr (Some (Data response))), ct)))"

text \<open>
  The admission part of the command: the port check, the forced connection mode, the
  token and the quota. \<open>Some (Inl n)\<close> is \<open>os.Exit(n)\<close>, \<open>Some (Inr ())\<close> goes on.
\<close>

definition tcp_admission ::
    "tcp_env \<Rightarrow> tcp_flags \<Rightarrow> Container \<Rightarrow> event list \<times> (int + unit) option \<times> Container" where
  "tcp_admission env flags ct0 =
     (if tcpLocalPort flags \<le> 0
        then ([Print ''Error: Local port must be greater than 0''], Some (Inl 1), ct0)
      else
       (let ct = (if ConnMode (ContainerConfig ct0) \<noteq> ConnectionModeDirectTCP
                    then ct0\<lparr> ContainerConfig :=
                               (ContainerConfig ct0)\<lparr> ConnMode := ConnectionModeDirectTCP \<rparr> \<rparr>
                  else ct0) in
        if AuthEnabled (ContainerConfig ct)
             \<or> ConnMode (ContainerConfig ct) = ConnectionModeDirectTCP then
          (if AuthToken (ContainerConfig ct) = []
             then ([Print ''ERROR: AUTHENTICATION FAILED''], Some (Inl 1), ct)
           else
            (case tcp_user_data env ct of
               (evs, None, ct') \<Rightarrow> (evs, None, ct')
             | (evs, Some (Inl n), ct') \<Rightarrow> (evs, Some (Inl n), ct')
             | (evs, Some (Inr None), ct') \<Rightarrow>
                 (evs @ [Print ''Error: Invalid or unvalidated authentication token''],
                  Some (Inl 1), ct')
             | (evs, Some (Inr (Some u)), ct') \<Rightarrow>
                 if tunnel_limit_reached u
                   then (evs @ [Print (''Error: Tunnel limit reached (''
                                        @ Itoa (Used (Tunnels (Limits (Subscription u)))) @ ''/''
                                        @ Itoa (Limit (Tunnels (Limits (Subscription u))))
                                        @ ''). Please upgrade your subscription.'')],
                         Some (Inl 1), ct')
                 else (evs, Some (Inr ()), ct')))
        else ([], Some (Inr ()), ct)))"

definition tcp_local_host :: "tcp_env \<Rightarrow> string \<Rightarrow> string option" where
  "tcp_local_host env localAddr' =
     (case split_host_port env localAddr' of
        Inr (host, port) \<Rightarrow> Some (if host \<noteq> [] then host else ''127.0.0.1'')
      | Inl e \<Rightarrow> if \<not> Contains localAddr' '':'' then Some localAddr' else None)"

definition tcp_tunnel_config :: "tcp_flags \<Rightarrow> Config \<Rightarrow> string \<Rightarrow> TunnelConfig" where
  "tcp_tunnel_config flags cfg localHost =
     \<lparr> TunnelName = [], TunnelKind = TunnelTypeTCP, LocalPort = tcpLocalPort flags,
       LocalAddr = localHost, ConfigSubdomain = [],
       ConfigRemotePort =
         (if tcpRemotePort flags = 0 then
            (if ConnMode cfg = ConnectionModeDirectTCP then 0 else tcpLocalPort flags)
          else tcpRemotePort flags),
       TunnelAuthInfo = None \<rparr>"

definition tcpCmd ::
    "tcp_env \<Rightarrow> tcp_flags \<Rightarrow> Container \<Rightarrow> event list \<times> tcp_outcome option \<times> Container" where
  "tcpCmd env flags ct0 =
     (case tcp_admission env flags ct0 of
        (evs, None, ct) \<Rightarrow> (evs, None, ct)
      | (evs, Some (Inl n), ct) \<Rightarrow> (evs, Some (Exited n), ct)
      | (evs0, Some (Inr u), ct) \<Rightarrow>
         (let evs = evs0 @ (if ConnMode (ContainerConfig ct) = ConnectionModeWebSocket
                                \<and> ContainerClient ct \<noteq> None
                              then [RunWithReconnectCall] else []) in
          case tcp_local_host env (tcpLocalAddr flags) of
            None \<Rightarrow>
              (evs @ [Print (''Error: Invalid local address format: '' @ tcpLocalAddr flags)],
               Some (Exited 1), ct)
          | Some localHost \<Rightarrow>
             (let tunnelConfig = tcp_tunnel_config flags (ContainerConfig ct) localHost in
              case create_tcp_tunnel env tunnelConfig of
                (evs2, Inl e) \<Rightarrow>
                  (evs @ CreateTCPTunnelCall tunnelConfig # evs2
                     @ [Print (''Error: Failed to create tunnel: '' @ e)],
                   Some (Exited 1), ct)
              | (evs2, Inr tunnel) \<Rightarrow>
                  (evs @ CreateTCPTunnelCall tunnelConfig # evs2
                     @ [Print ''TCP TUNNEL CREATED SUCCESSFULLY!''],
                   Some (WaitingForSignal tunnel), ct))))"

text \<open>Printing is the one event that leaves the outside world as it was.\<close>

fun is_print :: "event \<Rightarrow> bool" where
  "is_print (Print m) = True"
| "is_print e = False"


section \<open>Sequences of calls\<close>



section \<open>Example inputs\<close>

definition NewConfig :: Config where
  "NewConfig =
     \<lparr> ServerAddress = ''control.haxorport.online'', ControlPort = 443, DataPort = 8081,
       ConnMode = ConnectionModeOther [], AuthEnabled = False, AuthToken = [],
       AuthValidationURL = ''https://haxorport.online/AuthToken/validate'',
       TLSEnabled = False, TLSCert = [], TLSKey = [], LogLevel = ''warn'', LogFile = [],
       BaseDomain = ''haxorport.online'', ConfigTunnels = [] \<rparr>"

definition env_status :: "int \<Rightarrow> string \<Rightarrow> http_env" where
  "env_status code body =
     \<lparr> url_parse_error = (\<lambda>u. None),
       client_Do = (\<lambda>q. Inr \<lparr> StatusCode = code, Body = Inr body \<rparr>),
       json_Valid = (\<lambda>b. b = ''{}''),
       json_Unmarshal = (\<lambda>b. Inl ''cannot unmarshal'') \<rparr>"





definition working_connect :: connect_env where
  "working_connect =
     \<lparr> auth_env = env_status 200 ''{}'', load_cert_error = None, ws_url_parse_error = None,
       ws_dial = (\<lambda>u. Inr 8), connect_now = 0, auth_payload_marshal_error = (\<lambda>p. None),
       auth_message_marshal = (\<lambda>m. Inr ''{}''), auth_write_error = None \<rparr>"

















definition example_direct_tunnel :: DirectTunnel where
  "example_direct_tunnel =
     NewDirectTunnel ''127.0.0.1:6022'' ''control.haxorport.online'' ''127.0.0.1:22'' 6022 20000
       7000 True ''hxp_token''"

definition server_answers :: "string \<Rightarrow> start_env" where
  "server_answers response =
     \<lparr> listen_result = Inr 1, dial_result = Inr 2, start_write_error = None,
       start_read = Inr response, rand_intn = 12345 \<rparr>"

definition example_reads :: "read_result list" where
  "example_reads = [ReadData ''GET '', ReadData ''/index '', ReadData ''HTTP/1.1'', ReadEOF]"

definition reordered_run :: forwarder where
  "reordered_run =
     \<lparr> fw_phase = Returned, fw_reads = [], fw_pending = [],
       fw_sent = [''GET '', ''HTTP/1.1'', ''/index ''], fw_errCh = False \<rparr>"

definition limited_response :: AuthResponse where
  "limited_response =
     \<lparr> Code = 200, Status = ''success'', RespMessage = ''ok'',
       Data = \<lparr> UserID = ''u1'', Fullname = ''A User'', Username = ''user'',
                Email = ''user@example.net'',
                Subscription =
                  \<lparr> SubName = ''free'',
                    Limits = \<lparr> Tunnels = \<lparr> Limit = 1, Used = 1, Reached = True \<rparr>,
                               Ports = \<lparr> Limit = 1, Used = 0, Reached = False \<rparr>,
                               Bandwidth = \<lparr> Limit = 1, Used = 0, Reached = False \<rparr>,
                               Requests = \<lparr> Limit = 1, Used = 0, Reached = False \<rparr> \<rparr>,
                    Features = \<lparr> CustomDomains = False, Analytics = False,
                                 PrioritySupport = False \<rparr> \<rparr> \<rparr>,
       Meta = \<lparr> HeaderStatusCode = 200 \<rparr> \<rparr>"

definition limited_tcp_env :: tcp_env where
  "limited_tcp_env =
     \<lparr> tcp_auth_env =
         \<lparr> url_parse_error = (\<lambda>u. None),
           client_Do = (\<lambda>q. Inr \<lparr> StatusCode = 200, Body = Inr ''{}'' \<rparr>),
           json_Valid = (\<lambda>b. True),
           json_Unmarshal = (\<lambda>b. Inr limited_response) \<rparr>,
       tcp_connect_env = working_connect,
       split_host_port = (\<lambda>a. Inl ''missing port in address''),
       create_tcp_tunnel = (\<lambda>cfg. ([], Inl ''not reached'')) \<rparr>"

definition ssh_flags :: tcp_flags where
  "ssh_flags = \<lparr> tcpLocalPort = 22, tcpRemotePort = 0, tcpLocalAddr = ''127.0.0.1'' \<rparr>"

definition token_container :: Container where
  "token_container =
     \<lparr> ContainerConfig = NewConfig\<lparr> AuthToken := ''hxp_token'' \<rparr>, ContainerClient = None \<rparr>"


section \<open>Properties of the auth validator\<close>

text \<open>
  C7. The validator answers the empty token with an error and issues no HTTP request.
  For any other token it reports success exactly when the request could be made, the
  response has status 200, its body is valid JSON that decodes, and the decoded body
  has status "success" and code 200. A response with another status gives the error
  \<open>NonOKStatus\<close> with that status, a body that is not JSON the error \<open>NotValidJSON\<close>, and
  the two errors differ.
\<close>

theorem auth_validator_classification:
  "ValidateToken env url [] = ([], Inl EmptyToken) \<and>
   (snd (ValidateToken env url token) = Inr True \<longleftrightarrow>
      token \<noteq> [] \<and> url_parse_error env url = None \<and>
      (\<exists>resp body r. client_Do env (validation_request url token) = Inr resp \<and>
         StatusCode resp = 200 \<and> Body resp = Inr body \<and> json_Valid env body \<and>
         json_Unmarshal env body = Inr r \<and> Status r = ''success'' \<and> Code r = 200)) \<and>
   (token \<noteq> [] \<and> url_parse_error env url = None \<and>
      client_Do env (validation_request url token) = Inr resp \<and> StatusCode resp \<noteq> 200 \<longrightarrow>
      ValidateToken env url token =
        ([validation_request url token], Inl (NonOKStatus (StatusCode resp)))) \<and>
   (token \<noteq> [] \<and> url_parse_error env url = None \<and>
      client_Do env (validation_request url token) = Inr resp \<and> StatusCode resp = 200 \<and>
      Body resp = Inr body \<and> \<not> json_Valid env body \<longrightarrow>
      ValidateToken env url token =
        ([validation_request url token], Inl (NotValidJSON (json_preview body)))) \<and>
   NonOKStatus code \<noteq> NotValidJSON preview"
proof -
  have a: "ValidateToken env url [] = ([], Inl EmptyToken)"
    by (simp add: ValidateToken_def ValidateTokenWithResponse_def)
  have b: "snd (ValidateToken env url token) = Inr True \<longleftrightarrow>
      token \<noteq> [] \<and> url_parse_error env url = None \<and>
      (\<exists>resp body r. client_Do env (validation_request url token) = Inr resp \<and>
         StatusCode resp = 200 \<and> Body resp = Inr body \<and> json_Valid env body \<and>
         json_Unmarshal env body = Inr r \<and> Status r = ''success'' \<and> Code r = 200)"
    by (auto simp: ValidateToken_def ValidateTokenWithResponse_def Let_def
             split: option.splits sum.splits if_splits)
  have c: "token \<noteq> [] \<and> url_parse_error env url = None \<and>
      client_Do env (validation_request url token) = Inr resp \<and> StatusCode resp \<noteq> 200 \<longrightarrow>
      ValidateToken env url token =
        ([validation_request url token], Inl (NonOKStatus (StatusCode resp)))"
    by (simp add: ValidateToken_def ValidateTokenWithResponse_def Let_def)
  have d: "token \<noteq> [] \<and> url_parse_error env url = None \<and>
      client_Do env (validation_request url token) = Inr resp \<and> StatusCode resp = 200 \<and>
      Body resp = Inr body \<and> \<not> json_Valid env body \<longrightarrow>
      ValidateToken env url token =
        ([validation_request url token], Inl (NotValidJSON (json_preview body)))"
    by (simp add: ValidateToken_def ValidateTokenWithResponse_def Let_def)
  show ?thesis using a b c d by simp
qed

theorem auth_validator_classification_witness:
  "ValidateToken (env_status 503 ''busy'') ''http://h/v'' ''tok'' =
     ([validation_request ''http://h/v'' ''tok''], Inl (NonOKStatus 503)) \<and>
   ValidateToken (env_status 200 ''<html>'') ''http://h/v'' ''tok'' =
     ([validation_request ''http://h/v'' ''tok''], Inl (NotValidJSON ''<html>''))"
proof -
  have 1: "ValidateToken (env_status 503 ''busy'') ''http://h/v'' ''tok'' =
     ([validation_request ''http://h/v'' ''tok''], Inl (NonOKStatus 503))"
    using auth_validator_classification
            [where env = "env_status 503 ''busy''" and url = "''http://h/v''"
               and token = "''tok''" and resp = "\<lparr> StatusCode = 503, Body = Inr ''busy'' \<rparr>"]
    by (simp add: env_status_def)
  have 2: "ValidateToken (env_status 200 ''<html>'') ''http://h/v'' ''tok'' =
     ([validation_request ''http://h/v'' ''tok''], Inl (NotValidJSON ''<html>''))"
    using auth_validator_classification
            [where env = "env_status 200 ''<html>''" and url = "''http://h/v''"
               and token = "''tok''" and resp = "\<lparr> StatusCode = 200, Body = Inr ''<html>'' \<rparr>"
               and body = "''<html>''"]
    by (simp add: env_status_def json_preview_def)
  show ?thesis using 1 2 by simp
qed


section \<open>Properties of the session transport\<close>









section \<open>Properties of the tunnel registry\<close>
















section \<open>Properties of the URL rewriting\<close>













section \<open>Properties of the Direct-TCP tunnel\<close>

lemma Itoa_7000: "Itoa 7000 = ''7000''"
  by (simp add: Itoa_def digit_char_def)

lemma Itoa_20000: "Itoa 20000 = ''20000''"
  by (simp add: Itoa_def digit_char_def)

lemma Split_connected: "Split ''CONNECTED:20777'' '':'' = [''CONNECTED'', ''20777'']"
  by (simp add: Split_def)

lemma Atoi_20777: "Atoi ''20777'' = Some 20777"
  by (simp add: Atoi_def digit_val_def)

text \<open>A \<open>Start\<close> called by the goroutine that holds the mutex does nothing and does not return.\<close>

lemma Start_while_held:
  "dt_mutex_held t \<Longrightarrow> Start env t = ([], None, t)"
  by (simp add: Start.simps dt_Lock_def)

text \<open>
  Whenever \<open>Start\<close> reaches a response \<open>CONNECTED:N\<close> with \<open>N\<close> another port than the
  requested one, it holds the mutex and locks it again: it does not return.
\<close>

lemma Start_connected_blocks:
  "dt_mutex_held t \<Longrightarrow> HasPrefix response ''CONNECTED:'' \<Longrightarrow>
   2 \<le> length (Split response '':'') \<Longrightarrow> Atoi (Split response '':'' ! 1) = Some n \<Longrightarrow>
   n \<noteq> dt_remotePort t \<Longrightarrow>
   Start_connected l sc evs response t = (evs, None, t)"
  by (simp add: Start_connected_def adopt_port_def dt_Lock_def Let_def)

text \<open>
  So a \<open>Start\<close> on a fresh tunnel whose handshake is answered with another port does not
  return, and leaves the requested port in place.
\<close>

lemma Start_reassigned_blocks:
  assumes "\<not> dt_mutex_held t" "dt_listener t = None" "dt_connection t = None"
    and "listen_result env = Inr l" "dial_result env = Inr sc" "start_write_error env = None"
    and "start_read env = Inr bytes" "response = take (read_buffer_size t) bytes"
    and "\<not> Contains response ''ERROR''" "HasPrefix response ''CONNECTED:''"
    and "2 \<le> length (Split response '':'')" "Atoi (Split response '':'' ! 1) = Some n"
    and "n \<noteq> dt_remotePort t"
  shows "Start env t =
      ([Listen (dt_localPort t),
        TcpDial (JoinHostPort (dt_serverAddr t) (Itoa (dt_controlPort t))),
        TcpWrite sc (registration_line t ''DIRECT_TCP_FORWARD''), TcpRead sc],
       None,
       t\<lparr> dt_mutex_held := True, dt_stopped := False, dt_connection := Some sc \<rparr>)"
proof -
  let ?t3 = "t\<lparr> dt_mutex_held := True, dt_stopped := False, dt_connection := Some sc \<rparr>"
  have buf: "read_buffer_size ?t3 = read_buffer_size t"
    by (simp add: read_buffer_size_def)
  have line: "registration_line ?t3 ''DIRECT_TCP_FORWARD'' =
      registration_line t ''DIRECT_TCP_FORWARD''"
    by (simp add: registration_line_def)
  have blocked: "Start_connected l sc evs (take (read_buffer_size t) bytes) ?t3 =
      (evs, None, ?t3)" for evs
    using assms(10-13) unfolding assms(8) by (intro Start_connected_blocks) simp_all
  show ?thesis
    using assms(1-7) assms(9) unfolding assms(8)
    by (subst Start.simps) (simp add: dt_Lock_def Let_def buf line blocked)
qed

text \<open>
  After an \<open>ERROR\<close> answer \<open>Start\<close> closes the connection, waits 500 ms and picks a port
  from 10000 up to 29999; the restart then finds the mutex held and does not return.
\<close>

lemma Start_error_blocks:
  assumes "\<not> dt_mutex_held t" "dt_listener t = None" "dt_connection t = None"
    and "listen_result env = Inr l" "dial_result env = Inr sc" "start_write_error env = None"
    and "start_read env = Inr bytes" "Contains (take (read_buffer_size t) bytes) ''ERROR''"
  shows "Start env t =
      ([Listen (dt_localPort t),
        TcpDial (JoinHostPort (dt_serverAddr t) (Itoa (dt_controlPort t))),
        TcpWrite sc (registration_line t ''DIRECT_TCP_FORWARD''), TcpRead sc, TcpClose sc,
        Sleep 500],
       None,
       t\<lparr> dt_mutex_held := True, dt_stopped := False, dt_connection := Some sc,
          dt_remotePort := 10000 + int (rand_intn env mod 20000) \<rparr>) \<and>
    10000 \<le> 10000 + int (rand_intn env mod 20000) \<and>
    10000 + int (rand_intn env mod 20000) < 30000"
proof -
  let ?t' = "t\<lparr> dt_mutex_held := True, dt_stopped := False, dt_connection := Some sc,
          dt_remotePort := 10000 + int (rand_intn env mod 20000) \<rparr>"
  have inner: "Start env ?t' = ([], None, ?t')"
    by (rule Start_while_held) simp
  have buf: "read_buffer_size (t\<lparr> dt_mutex_held := True, dt_stopped := False,
      dt_connection := Some sc \<rparr>) = read_buffer_size t"
    by (simp add: read_buffer_size_def)
  have line: "registration_line (t\<lparr> dt_mutex_held := True, dt_stopped := False,
      dt_connection := Some sc \<rparr>) ''DIRECT_TCP_FORWARD'' =
      registration_line t ''DIRECT_TCP_FORWARD''"
    by (simp add: registration_line_def)
  have "Start env t =
      ([Listen (dt_localPort t),
        TcpDial (JoinHostPort (dt_serverAddr t) (Itoa (dt_controlPort t))),
        TcpWrite sc (registration_line t ''DIRECT_TCP_FORWARD''), TcpRead sc, TcpClose sc,
        Sleep 500],
       None, ?t')"
    using assms
    by (subst Start.simps) (simp add: dt_Lock_def Let_def buf line inner)
  then show ?thesis by simp
qed

text \<open>
  C2. The tunnel asks for port 20000, a callback is registered, and the server answers
  \<open>CONNECTED:20777\<close>. \<open>Start\<close> does not return; the port is still 20000 and the callback
  has not been called.
\<close>

theorem start_blocks_on_port_reassignment:
  "Start (server_answers ''CONNECTED:20777'')
     (example_direct_tunnel\<lparr> dt_portChangeCallback := True \<rparr>) =
     ([Listen 6022, TcpDial ''control.haxorport.online:7000'',
       TcpWrite 2 ''AUTH_TOKEN=hxp_token:127.0.0.1:22:20000:DIRECT_TCP_FORWARD'', TcpRead 2],
      None,
      example_direct_tunnel\<lparr> dt_portChangeCallback := True, dt_connection := Some 2,
        dt_mutex_held := True \<rparr>) \<and>
   dt_remotePort (example_direct_tunnel\<lparr> dt_portChangeCallback := True,
     dt_connection := Some 2, dt_mutex_held := True \<rparr>) = 20000"
  by (simp add: Start.simps Start_connected_def adopt_port_def dt_Lock_def dt_Unlock_def
        server_answers_def example_direct_tunnel_def NewDirectTunnel_def JoinHostPort_def
        registration_line_def read_buffer_size_def Itoa_7000 Itoa_20000 Split_connected
        Atoi_20777 Let_def)

text \<open>
  The same response on the control loop, whose goroutine does not hold the mutex: the
  port is adopted and the callback is called once.
\<close>

lemma control_loop_adopts_port:
  "control_handshake_response ''CONNECTED:20777''
     (example_direct_tunnel\<lparr> dt_portChangeCallback := True \<rparr>) =
   Some ([PortChangeCallback 20777], True,
         example_direct_tunnel\<lparr> dt_portChangeCallback := True, dt_remotePort := 20777 \<rparr>)"
  by (simp add: control_handshake_response_def adopt_port_def dt_Lock_def dt_Unlock_def
        example_direct_tunnel_def NewDirectTunnel_def Split_connected Atoi_20777 Let_def)

text \<open>
  C3. The server answers with an \<open>ERROR\<close> line. \<open>Start\<close> closes the connection, waits
  500 ms and picks the port \<open>10000 + 12345\<close>; the restart \<open>t.Start()\<close> then locks the
  mutex that the running \<open>Start\<close> still holds, so nothing is sent again and \<open>Start\<close> does
  not return.
\<close>

theorem start_blocks_on_error_restart:
  "Start (server_answers ''ERROR: port 20000 already in use'') example_direct_tunnel =
     ([Listen 6022, TcpDial ''control.haxorport.online:7000'',
       TcpWrite 2 ''AUTH_TOKEN=hxp_token:127.0.0.1:22:20000:DIRECT_TCP_FORWARD'', TcpRead 2,
       TcpClose 2, Sleep 500],
      None,
      example_direct_tunnel\<lparr> dt_connection := Some 2, dt_mutex_held := True,
        dt_remotePort := 22345 \<rparr>)"
  by (simp add: Start.simps Start_connected_def adopt_port_def dt_Lock_def dt_Unlock_def
        server_answers_def example_direct_tunnel_def NewDirectTunnel_def JoinHostPort_def
        registration_line_def read_buffer_size_def Itoa_7000 Itoa_20000 Let_def)


section \<open>Properties of the \<open>tcp\<close> command\<close>

lemma validate_requests:
  "ValidateTokenWithResponse env url token = (reqs, Inr response) \<Longrightarrow>
     reqs = [validation_request url token]"
  by (auto simp: ValidateTokenWithResponse_def Let_def
           split: if_splits option.splits sum.splits)

text \<open>
  C6. When the token validates and the subscription's tunnel limit is reached (the flag
  is set, or \<open>used \<ge> limit\<close>), the \<open>tcp\<close> command exits with status 1. Apart from what it
  prints, the only thing it has done is the validation request: no tunnel was created.
\<close>

theorem tcp_quota_enforced:
  assumes port: "0 < tcpLocalPort flags"
    and token: "AuthToken (ContainerConfig ct) \<noteq> []"
    and validated: "ValidateTokenWithResponse (tcp_auth_env env)
        (tcp_validation_url (ContainerConfig ct)) (AuthToken (ContainerConfig ct)) =
        (reqs, Inr response)"
    and ok: "Status response = ''success''" "Code response = 200"
    and quota: "Reached (Tunnels (Limits (Subscription (Data response)))) \<or>
        Used (Tunnels (Limits (Subscription (Data response))))
          \<ge> Limit (Tunnels (Limits (Subscription (Data response))))"
  shows "fst (snd (tcpCmd env flags ct)) = Some (Exited 1) \<and>
         filter (\<lambda>e. \<not> is_print e) (fst (tcpCmd env flags ct)) =
           [HttpPost (validation_request (tcp_validation_url (ContainerConfig ct))
                        (AuthToken (ContainerConfig ct)))]"
proof -
  from validate_requests [OF validated]
  have reqs: "reqs = [validation_request (tcp_validation_url (ContainerConfig ct))
                        (AuthToken (ContainerConfig ct))]" .
  let ?ct = "if ConnMode (ContainerConfig ct) \<noteq> ConnectionModeDirectTCP
               then ct\<lparr> ContainerConfig :=
                          (ContainerConfig ct)\<lparr> ConnMode := ConnectionModeDirectTCP \<rparr> \<rparr>
             else ct"
  have mode: "ConnMode (ContainerConfig ?ct) = ConnectionModeDirectTCP" by simp
  have same: "tcp_validation_url (ContainerConfig ?ct) = tcp_validation_url (ContainerConfig ct)"
    "AuthToken (ContainerConfig ?ct) = AuthToken (ContainerConfig ct)"
    by (simp_all add: tcp_validation_url_def)
  have ud: "tcp_user_data env ?ct = (map HttpPost reqs, Some (Inr (Some (Data response))), ?ct)"
    unfolding tcp_user_data_def mode same using validated ok by simp
  have adm: "tcp_admission env flags ct =
      (map HttpPost reqs @
         [Print (''Error: Tunnel limit reached (''
                  @ Itoa (Used (Tunnels (Limits (Subscription (Data response))))) @ ''/''
                  @ Itoa (Limit (Tunnels (Limits (Subscription (Data response)))))
                  @ ''). Please upgrade your subscription.'')],
       Some (Inl 1), ?ct)"
    unfolding tcp_admission_def Let_def
    using port token quota
    by (simp only: mode same ud) (simp add: tunnel_limit_reached_def)
  show ?thesis
    by (simp add: tcpCmd_def adm reqs)
qed

theorem tcp_quota_enforced_witness:
  "0 < tcpLocalPort ssh_flags \<and>
   AuthToken (ContainerConfig token_container) \<noteq> [] \<and>
   Reached (Tunnels (Limits (Subscription (Data limited_response)))) \<and>
   fst (snd (tcpCmd limited_tcp_env ssh_flags token_container)) = Some (Exited 1) \<and>
   filter (\<lambda>e. \<not> is_print e) (fst (tcpCmd limited_tcp_env ssh_flags token_container)) =
     [HttpPost (validation_request ''https://haxorport.online/AuthToken/validate''
                  ''hxp_token'')]"
proof -
  have port: "0 < tcpLocalPort ssh_flags"
    by (simp add: ssh_flags_def)
  have token: "AuthToken (ContainerConfig token_container) \<noteq> []"
    by (simp add: token_container_def)
  have url: "tcp_validation_url (ContainerConfig token_container) =
      ''https://haxorport.online/AuthToken/validate''"
    by (simp add: tcp_validation_url_def token_container_def NewConfig_def)
  have tok: "AuthToken (ContainerConfig token_container) = ''hxp_token''"
    by (simp add: token_container_def)
  have validated: "ValidateTokenWithResponse (tcp_auth_env limited_tcp_env)
        (tcp_validation_url (ContainerConfig token_container))
        (AuthToken (ContainerConfig token_container)) =
        ([validation_request ''https://haxorport.online/AuthToken/validate'' ''hxp_token''],
         Inr limited_response)"
    by (simp add: url tok ValidateTokenWithResponse_def limited_tcp_env_def Let_def)
  have ok: "Status limited_response = ''success''" "Code limited_response = 200"
    by (simp_all add: limited_response_def)
  have reached: "Reached (Tunnels (Limits (Subscription (Data limited_response))))"
    by (simp add: limited_response_def)
  then have quota: "Reached (Tunnels (Limits (Subscription (Data limited_response)))) \<or>
        Used (Tunnels (Limits (Subscription (Data limited_response))))
          \<ge> Limit (Tunnels (Limits (Subscription (Data limited_response))))"
    by simp
  from tcp_quota_enforced [OF port token validated ok quota] port token reached
  show ?thesis by (simp add: url tok)
qed


section \<open>Properties of the per-connection forwarder\<close>

text \<open>
  C1. The local socket delivers \<open>GET\<close>, \<open>/index\<close> and \<open>HTTP/1.1\<close> in three reads. In the
  run below the sender goroutine of the third chunk writes before the one of the
  second: the payloads reach the session transport as \<open>GET\<close>, \<open>HTTP/1.1\<close>, \<open>/index\<close>, and
  their concatenation is not the bytes read.
\<close>

theorem forwarder_can_reorder_chunks:
  "rtranclp forwarder_step (forwarder_start example_reads) reordered_run \<and>
   concat (fw_sent reordered_run) = ''GET HTTP/1.1/index '' \<and>
   concat (fw_sent reordered_run) \<noteq> ''GET /index HTTP/1.1''"
proof -
  let ?s0 = "forwarder_start example_reads"
  let ?s1 = "\<lparr> fw_phase = Forwarding,
               fw_reads = [ReadData ''/index '', ReadData ''HTTP/1.1'', ReadEOF],
               fw_pending = [], fw_sent = [''GET ''], fw_errCh = False \<rparr>"
  let ?s2 = "\<lparr> fw_phase = Forwarding, fw_reads = [ReadData ''HTTP/1.1'', ReadEOF],
               fw_pending = [''/index ''], fw_sent = [''GET ''], fw_errCh = False \<rparr>"
  let ?s3 = "\<lparr> fw_phase = Forwarding, fw_reads = [ReadEOF],
               fw_pending = [''/index '', ''HTTP/1.1''], fw_sent = [''GET ''],
               fw_errCh = False \<rparr>"
  let ?s4 = "\<lparr> fw_phase = Forwarding, fw_reads = [ReadEOF],
               fw_pending = [''/index ''], fw_sent = [''GET '', ''HTTP/1.1''],
               fw_errCh = False \<rparr>"
  let ?s5 = "\<lparr> fw_phase = Forwarding, fw_reads = [ReadEOF],
               fw_pending = [], fw_sent = [''GET '', ''HTTP/1.1'', ''/index ''],
               fw_errCh = False \<rparr>"
  have 1: "forwarder_step ?s0 ?s1"
    using initial_sent [of ?s0 "''GET ''" "[ReadData ''/index '', ReadData ''HTTP/1.1'', ReadEOF]"]
    by (simp add: forwarder_start_def example_reads_def)
  have 2: "forwarder_step ?s1 ?s2"
    using read_chunk [of ?s1 "''/index ''" "[ReadData ''HTTP/1.1'', ReadEOF]"] by simp
  have 3: "forwarder_step ?s2 ?s3"
    using read_chunk [of ?s2 "''HTTP/1.1''" "[ReadEOF]"] by simp
  have 4: "forwarder_step ?s3 ?s4"
    using sender_sends [of ?s3 "[''/index '']" "''HTTP/1.1''" "[]"] by simp
  have 5: "forwarder_step ?s4 ?s5"
    using sender_sends [of ?s4 "[]" "''/index ''" "[]"] by simp
  have 6: "forwarder_step ?s5 reordered_run"
    using read_eof [of ?s5 "[]"] by (simp add: reordered_run_def)
  have "rtranclp forwarder_step ?s0 reordered_run"
    using 1 2 3 4 5 6 by (meson rtranclp.rtrancl_into_rtrancl rtranclp.rtrancl_refl)
  then show ?thesis by (simp add: reordered_run_def)
qed

end
